theory Spec2Isabelle
  imports Complex_Main "HOL-Library.AList"
begin

section \<open>The factory digital twin (state\_engine.py)\<close>

text \<open>
  A shallow embedding of the class \<^verbatim>\<open>FactoryState\<close>. Every method becomes a function
  that takes the state and returns its result together with the updated state.

  Conventions of the embedding:
  \<^item> Python's unbounded \<^verbatim>\<open>int\<close> is \<^typ>\<open>int\<close>; a Python \<^verbatim>\<open>float\<close> (cash, machine
    health, prices) is a \<^typ>\<open>real\<close>: arithmetic is exact, so rounding error and the
    overflow of a float are outside the model.
  \<^item> The two SQLite tables are maps from their primary key to a row. The store is
    taken to be available; a write that SQLite rejects (a second \<^verbatim>\<open>INSERT\<close> under
    the same primary key) is swallowed by the \<^verbatim>\<open>except\<close> clause of the source and
    leaves the table as it was.
  \<^item> The module-level random generator is a pair of streams of draws, handed to the
    functions that draw from it.
  \<^item> An exception is a value of type \<open>error\<close>; a method that can raise returns
    \<open>error + 'a\<close> next to the state the object is left in.
\<close>

subsection \<open>Python built-ins used by the source\<close>

datatype error = KeyError

text \<open>\<^verbatim>\<open>str(n)\<close> for an integer: decimal digits, a leading minus sign when negative.\<close>

definition digit_char :: "nat \<Rightarrow> char" where
  "digit_char d = char_of (48 + d)"

fun str_nat :: "nat \<Rightarrow> string" where
  "str_nat n = (if n < 10 then [digit_char n] else str_nat (n div 10) @ [digit_char (n mod 10)])"

definition str_int :: "int \<Rightarrow> string" where
  "str_int i = (if i < 0 then CHR ''-'' # str_nat (nat (- i)) else str_nat (nat i))"

text \<open>\<^verbatim>\<open>int(x)\<close> for a float: truncation towards zero.\<close>

definition py_int :: "real \<Rightarrow> int" where
  "py_int x = (if 0 \<le> x then \<lfloor>x\<rfloor> else \<lceil>x\<rceil>)"

text \<open>\<^verbatim>\<open>round(x, 2)\<close>: the nearest multiple of 1/100, a tie going to the even one.\<close>

definition round_half_even :: "real \<Rightarrow> int" where
  "round_half_even y =
     (let f = \<lfloor>y\<rfloor> in
      if y - of_int f < 1 / 2 then f
      else if 1 / 2 < y - of_int f then f + 1
      else if even f then f else f + 1)"

definition py_round2 :: "real \<Rightarrow> real" where
  "py_round2 x = of_int (round_half_even (x * 100)) / 100"

text \<open>
  A dictionary keeps insertion order; storing under a key already present replaces the
  value in place. Its keys are Python objects: a \<^verbatim>\<open>str\<close> never equals an \<^verbatim>\<open>int\<close>.
\<close>

datatype py_key = StrKey string | IntKey int

definition dict_set :: "'k \<Rightarrow> 'v \<Rightarrow> ('k \<times> 'v) list \<Rightarrow> ('k \<times> 'v) list" where
  "dict_set k v d = AList.update k v d"

definition dict_getitem :: "('k \<times> 'v) list \<Rightarrow> 'k \<Rightarrow> error + 'v" where
  "dict_getitem d k = (case map_of d k of None \<Rightarrow> Inl KeyError | Some v \<Rightarrow> Inr v)"

text \<open>The random generator: the successive results of \<^verbatim>\<open>random.randint(-2, 2)\<close> and of
  \<^verbatim>\<open>random.uniform(-5, 5)\<close>.\<close>

record rng =
  randint_draws :: "nat \<Rightarrow> int"
  uniform_draws :: "nat \<Rightarrow> real"

definition rng_drop :: "nat \<Rightarrow> rng \<Rightarrow> rng" where
  "rng_drop n rnd =
     \<lparr>randint_draws = (\<lambda>k. randint_draws rnd (k + n)),
      uniform_draws = (\<lambda>k. uniform_draws rnd (k + n))\<rparr>"

definition zero_noise :: rng where
  "zero_noise = \<lparr>randint_draws = (\<lambda>k. 0), uniform_draws = (\<lambda>k. 0)\<rparr>"

subsection \<open>The data model\<close>

text \<open>A job is the dictionary built in \<^verbatim>\<open>start_job\<close>.\<close>

record job =
  job_id :: string
  qty :: int
  start_tick :: int
  duration :: int
  cost :: int
  revenue :: real

text \<open>Rows of \<^verbatim>\<open>job_history\<close> (key: job id) and \<^verbatim>\<open>factory_history\<close> (key: tick).\<close>

record job_row =
  row_start_tick :: int
  row_end_tick :: int
  row_status :: string
  row_revenue :: real
  row_cost :: int

record tick_row =
  row_cash_balance :: real
  row_inventory :: int
  row_machine_health :: real
  row_active_jobs_count :: nat
  row_shift :: string

record factory_state =
  inventory :: int
  cash_balance :: real
  machine_health :: real
  factory_clock :: int
  current_shift :: string
  active_jobs :: "job list"
  base_market_price :: real
  base_market_demand :: int
  job_history :: "string \<rightharpoonup> job_row"
  factory_history :: "int \<rightharpoonup> tick_row"

text \<open>\<^verbatim>\<open>__init__\<close>, on a fresh database.\<close>

definition FactoryState_init :: factory_state where
  "FactoryState_init =
     \<lparr>inventory = 0, cash_balance = 1000, machine_health = 100, factory_clock = 0,
      current_shift = ''DAY'', active_jobs = [], base_market_price = 150,
      base_market_demand = 10, job_history = Map.empty, factory_history = Map.empty\<rparr>"

subsection \<open>The persistence log\<close>

text \<open>\<^verbatim>\<open>_log_state\<close>: a plain \<^verbatim>\<open>INSERT\<close>; a row already stored under the tick stays.\<close>

definition log_state :: "factory_state \<Rightarrow> factory_state" where
  "log_state s =
     (if factory_clock s \<in> dom (factory_history s) then s
      else s\<lparr>factory_history := (factory_history s)(factory_clock s \<mapsto>
             \<lparr>row_cash_balance = cash_balance s, row_inventory = inventory s,
              row_machine_health = machine_health s,
              row_active_jobs_count = length (active_jobs s),
              row_shift = current_shift s\<rparr>)\<rparr>)"

text \<open>\<^verbatim>\<open>_log_job\<close>: \<^verbatim>\<open>INSERT OR REPLACE\<close>, the end tick being the clock at the write.\<close>

definition log_job :: "job \<Rightarrow> string \<Rightarrow> factory_state \<Rightarrow> factory_state" where
  "log_job j status s =
     s\<lparr>job_history := (job_history s)(job_id j \<mapsto>
        \<lparr>row_start_tick = start_tick j, row_end_tick = factory_clock s,
         row_status = status, row_revenue = revenue j, row_cost = cost j\<rparr>)\<rparr>"

subsection \<open>Maintenance, finance and workforce\<close>

definition repair_machine :: "factory_state \<Rightarrow> string \<times> factory_state" where
  "repair_machine s =
     (let cost = (200::int) in
      if real_of_int cost \<le> cash_balance s
      then (''Machine repaired. Cost: $'' @ str_int cost @ ''. Health: 100%.'',
            s\<lparr>cash_balance := cash_balance s - real_of_int cost, machine_health := 100\<rparr>)
      else (''Insufficient funds for repair.'', s))"

definition start_job :: "string \<Rightarrow> int \<Rightarrow> factory_state \<Rightarrow> string \<times> factory_state" where
  "start_job jid q s =
     (let unit_cost = (50::int);
          total_cost = unit_cost * q in
      if real_of_int total_cost \<le> cash_balance s then
        if machine_health s \<le> 0 then (''Machine broken. Cannot start job.'', s)
        else
          let s1 = s\<lparr>cash_balance := cash_balance s - real_of_int total_cost\<rparr>;
              j = \<lparr>job_id = jid, qty = q, start_tick = factory_clock s1, duration = 5,
                   cost = total_cost, revenue = 0\<rparr>;
              s2 = s1\<lparr>active_jobs := active_jobs s1 @ [j]\<rparr>;
              wear = (if current_shift s2 = ''DAY'' then 5 else 8);
              s3 = s2\<lparr>machine_health := max 0 (machine_health s2 - wear)\<rparr>
          in (''Job '' @ jid @ '' started. Cost: $'' @ str_int total_cost
                @ ''. Est. Duration: 5 ticks.'',
              log_job j ''STARTED'' s3)
      else (''Insufficient funds to start job.'', s))"

text \<open>The search of \<^verbatim>\<open>cancel_job\<close>: the first job whose id is the one asked for.\<close>

fun find_job :: "string \<Rightarrow> job list \<Rightarrow> job option" where
  "find_job jid [] = None"
| "find_job jid (j # js) = (if job_id j = jid then Some j else find_job jid js)"

definition cancel_job :: "string \<Rightarrow> factory_state \<Rightarrow> string \<times> factory_state" where
  "cancel_job jid s =
     (case find_job jid (active_jobs s) of
        Some j \<Rightarrow>
          (''Job '' @ jid @ '' cancelled.'',
           log_job j ''CANCELLED'' (s\<lparr>active_jobs := remove1 j (active_jobs s)\<rparr>))
      | None \<Rightarrow> (''Job not found.'', s))"

definition change_shift :: "string \<Rightarrow> factory_state \<Rightarrow> string \<times> factory_state" where
  "change_shift new_shift s =
     (if new_shift \<in> set [''DAY'', ''NIGHT'']
      then (''Shift changed to '' @ new_shift @ ''.'', s\<lparr>current_shift := new_shift\<rparr>)
      else (''Invalid shift. Use DAY or NIGHT.'', s))"

subsection \<open>Forecasting\<close>

record forecast_entry =
  demand :: int
  price :: real

type_synonym forecast = "(py_key \<times> forecast_entry) list"

text \<open>One round of the loop of \<^verbatim>\<open>get_market_forecast\<close>, for offset \<open>t\<close>; it takes draw
  number \<open>t - 1\<close> of each stream.\<close>

definition forecast_step :: "rng \<Rightarrow> factory_state \<Rightarrow> int \<Rightarrow> forecast \<Rightarrow> forecast" where
  "forecast_step rnd s t fc =
     (let future_tick = factory_clock s + t;
          cycle = sin (real_of_int future_tick * (2 * pi / 24));
          demand0 = py_int (real_of_int (base_market_demand s) + cycle * 5
                            + real_of_int (randint_draws rnd (nat (t - 1))));
          demand1 = max 1 demand0;
          price0 = base_market_price s + cycle * 20 + uniform_draws rnd (nat (t - 1))
      in dict_set (StrKey (str_int future_tick))
           \<lparr>demand = demand1, price = py_round2 price0\<rparr> fc)"

definition get_market_forecast :: "rng \<Rightarrow> factory_state \<Rightarrow> int \<Rightarrow> forecast" where
  "get_market_forecast rnd s horizon = fold (forecast_step rnd s) [1..horizon] []"

subsection \<open>The simulation loop\<close>

text \<open>The second loop of \<^verbatim>\<open>tick\<close>, over the completed jobs. The forecast is keyed by
  strings and is indexed with the integer \<^verbatim>\<open>self.factory_clock + 1\<close>.\<close>

fun complete_jobs :: "rng \<Rightarrow> job list \<Rightarrow> factory_state \<Rightarrow> (error + unit) \<times> factory_state" where
  "complete_jobs rnd [] s = (Inr (), s)"
| "complete_jobs rnd (j # rest) s =
     (let s1 = s\<lparr>active_jobs := remove1 j (active_jobs s)\<rparr> in
      case dict_getitem (get_market_forecast rnd s1 1) (IntKey (factory_clock s1 + 1)) of
        Inl e \<Rightarrow> (Inl e, s1)
      | Inr current_market \<Rightarrow>
          let market_price = price current_market;
              rev = real_of_int (qty j) * market_price;
              j' = j\<lparr>revenue := rev\<rparr>;
              s2 = s1\<lparr>cash_balance := cash_balance s1 + rev\<rparr>;
              s3 = s2\<lparr>inventory := inventory s2 + qty j\<rparr>
          in complete_jobs (rng_drop 1 rnd) rest (log_job j' ''COMPLETED'' s3))"

definition tick :: "rng \<Rightarrow> factory_state \<Rightarrow> (error + unit) \<times> factory_state" where
  "tick rnd s =
     (let s1 = s\<lparr>factory_clock := factory_clock s + 1\<rparr>;
          s2 = s1\<lparr>active_jobs := map (\<lambda>j. j\<lparr>duration := duration j - 1\<rparr>) (active_jobs s1)\<rparr>;
          completed_jobs = filter (\<lambda>j. duration j \<le> 0) (active_jobs s2)
      in case complete_jobs rnd completed_jobs s2 of
           (Inl e, s3) \<Rightarrow> (Inl e, s3)
         | (Inr u, s3) \<Rightarrow> (Inr (), log_state s3))"

subsection \<open>Reads\<close>

text \<open>\<^verbatim>\<open>get_status\<close> builds one line of text. How Python prints a float (\<^verbatim>\<open>:.2f\<close> for
  the cash, \<^verbatim>\<open>str\<close> for the health) is taken as a parameter.\<close>

definition get_status :: "(real \<Rightarrow> string) \<Rightarrow> (real \<Rightarrow> string) \<Rightarrow> factory_state \<Rightarrow> string" where
  "get_status fmt_2f float_str s =
     ''Tick: '' @ str_int (factory_clock s) @ '' | Shift: '' @ current_shift s
       @ '' | Cash: $'' @ fmt_2f (cash_balance s) @ '' | Inventory: '' @ str_int (inventory s)
       @ '' | Health: '' @ float_str (machine_health s) @ ''% | Active Jobs: ''
       @ str_int (int (length (active_jobs s)))"

subsection \<open>The forecast, entry by entry\<close>

text \<open>The key and the value that round \<open>t\<close> of the loop of \<^verbatim>\<open>get_market_forecast\<close>
  stores, read off \<open>forecast_step\<close>.\<close>

definition forecast_key :: "factory_state \<Rightarrow> int \<Rightarrow> py_key" where
  "forecast_key s t = StrKey (str_int (factory_clock s + t))"

definition forecast_value :: "rng \<Rightarrow> factory_state \<Rightarrow> int \<Rightarrow> forecast_entry" where
  "forecast_value rnd s t =
     \<lparr>demand = max 1 (py_int (real_of_int (base_market_demand s)
                  + sin (2 * pi * real_of_int (factory_clock s + t) / 24) * 5
                  + real_of_int (randint_draws rnd (nat (t - 1))))),
      price = py_round2 (base_market_price s
                  + sin (2 * pi * real_of_int (factory_clock s + t) / 24) * 20
                  + uniform_draws rnd (nat (t - 1)))\<rparr>"


subsection \<open>Reachable states\<close>

text \<open>The states the commands and the tick can produce from the fresh state. A call
  that raises still leaves the object in the state it had reached. The reads
  (\<^verbatim>\<open>get_status\<close>, \<^verbatim>\<open>get_financials\<close>, \<^verbatim>\<open>get_market_forecast\<close>, \<^verbatim>\<open>log_issue\<close>) assign
  no field, so they add no state.\<close>

inductive reachable :: "factory_state \<Rightarrow> bool" where
  init: "reachable FactoryState_init"
| start: "reachable s \<Longrightarrow> reachable (snd (start_job jid q s))"
| cancel: "reachable s \<Longrightarrow> reachable (snd (cancel_job jid s))"
| repair: "reachable s \<Longrightarrow> reachable (snd (repair_machine s))"
| shift: "reachable s \<Longrightarrow> reachable (snd (change_shift new_shift s))"
| tick: "reachable s \<Longrightarrow> reachable (snd (tick rnd s))"

declare str_nat.simps [simp del]

section \<open>Facts about the built-ins\<close>

subsection \<open>The decimal text of an integer determines the integer\<close>

lemma digit_char_numerals:
  "digit_char 0 = CHR ''0''" "digit_char 1 = CHR ''1''" "digit_char 2 = CHR ''2''"
  "digit_char 3 = CHR ''3''" "digit_char 4 = CHR ''4''" "digit_char 5 = CHR ''5''"
  "digit_char 6 = CHR ''6''" "digit_char 7 = CHR ''7''" "digit_char 8 = CHR ''8''"
  "digit_char 9 = CHR ''9''" "digit_char (Suc 0) = CHR ''1''"
  by code_simp+

lemma of_char_digit_char: "d < 10 \<Longrightarrow> (of_char (digit_char d) :: nat) = 48 + d"
  by (simp add: digit_char_def)

lemma digit_char_inj:
  assumes a: "a < 10" and b: "b < 10" and e: "digit_char a = digit_char b"
  shows "a = b"
proof -
  have "(of_char (digit_char a) :: nat) = of_char (digit_char b)" by (simp only: e)
  then have "48 + a = 48 + b" by (simp only: of_char_digit_char[OF a] of_char_digit_char[OF b])
  then show ?thesis by simp
qed

lemma digit_char_not_minus: "d < 10 \<Longrightarrow> digit_char d \<noteq> CHR ''-''"
proof
  assume "d < 10" and "digit_char d = CHR ''-''"
  then have "(of_char (CHR ''-'') :: nat) = 48 + d" using of_char_digit_char[of d] by simp
  then show False by simp
qed

lemma str_nat_nonempty: "str_nat n \<noteq> []"
  by (subst str_nat.simps) simp

lemma str_nat_last: "last (str_nat n) = digit_char (n mod 10)"
  by (subst str_nat.simps) simp

lemma str_nat_butlast: "butlast (str_nat n) = (if n < 10 then [] else str_nat (n div 10))"
  by (subst str_nat.simps) simp

lemma str_nat_inj: "str_nat a = str_nat b \<Longrightarrow> a = b"
proof (induction a arbitrary: b rule: str_nat.induct)
  case (1 n)
  note e = "1.prems"
  have "last (str_nat n) = last (str_nat b)" by (simp only: e)
  then have "digit_char (n mod 10) = digit_char (b mod 10)" by (simp only: str_nat_last)
  then have l: "n mod 10 = b mod 10"
    by (rule digit_char_inj[rotated 2]) simp_all
  have "butlast (str_nat n) = butlast (str_nat b)" by (simp only: e)
  then have bl: "(if n < 10 then [] else str_nat (n div 10)) = (if b < 10 then [] else str_nat (b div 10))"
    by (simp only: str_nat_butlast)
  show ?case
  proof (cases "n < 10")
    case True
    have "b < 10"
    proof (rule ccontr)
      assume "\<not> b < 10"
      with bl True have "[] = str_nat (b div 10)" by simp
      then show False using str_nat_nonempty[of "b div 10"] by simp
    qed
    with True l show ?thesis by simp
  next
    case False
    have b10: "\<not> b < 10"
    proof
      assume "b < 10"
      with bl False have "str_nat (n div 10) = []" by simp
      then show False using str_nat_nonempty[of "n div 10"] by simp
    qed
    with False bl have "str_nat (n div 10) = str_nat (b div 10)" by simp
    then have d: "n div 10 = b div 10" by (rule "1.IH"[OF False])
    have "n = n div 10 * 10 + n mod 10" by simp
    also have "\<dots> = b div 10 * 10 + b mod 10" by (simp only: d l)
    also have "\<dots> = b" by simp
    finally show ?thesis .
  qed
qed

lemma str_nat_hd_not_minus: "hd (str_nat n) \<noteq> CHR ''-''"
proof (induction n rule: str_nat.induct)
  case (1 n)
  show ?case
  proof (cases "n < 10")
    case True
    then show ?thesis using digit_char_not_minus[of n] by (subst str_nat.simps) simp
  next
    case False
    with 1 show ?thesis using str_nat_nonempty[of "n div 10"] by (subst str_nat.simps) simp
  qed
qed

lemma str_int_neg_pos: "x < 0 \<Longrightarrow> \<not> y < 0 \<Longrightarrow> str_int x \<noteq> str_int y"
proof
  assume "x < 0" "\<not> y < 0" "str_int x = str_int y"
  then have "CHR ''-'' # str_nat (nat (- x)) = str_nat (nat y)" by (simp add: str_int_def)
  then have "hd (str_nat (nat y)) = CHR ''-''" by (metis list.sel(1))
  then show False using str_nat_hd_not_minus by blast
qed

lemma str_int_inj: "str_int a = str_int b \<Longrightarrow> a = b"
proof -
  assume e: "str_int a = str_int b"
  show ?thesis
  proof (cases "a < 0")
    case True
    have bn: "b < 0"
    proof (rule ccontr)
      assume "\<not> b < 0"
      from str_int_neg_pos[OF True this] e show False by simp
    qed
    with True e have "str_nat (nat (- a)) = str_nat (nat (- b))" by (simp add: str_int_def)
    then have "nat (- a) = nat (- b)" by (rule str_nat_inj)
    with True bn show ?thesis by simp
  next
    case False
    have bn: "\<not> b < 0"
    proof
      assume "b < 0"
      from str_int_neg_pos[OF this False] e show False by simp
    qed
    with False e have "str_nat (nat a) = str_nat (nat b)" by (simp add: str_int_def)
    then have "nat a = nat b" by (rule str_nat_inj)
    with False bn show ?thesis by simp
  qed
qed

subsection \<open>Searching the active jobs\<close>

lemma find_job_None_iff: "find_job jid js = None \<longleftrightarrow> (\<forall>j\<in>set js. job_id j \<noteq> jid)"
  by (induction js) auto

lemma find_job_Some_id: "find_job jid js = Some j \<Longrightarrow> job_id j = jid \<and> j \<in> set js"
  by (induction js) (auto split: if_splits)

lemma find_job_remove1:
  "find_job jid js = Some j \<Longrightarrow>
   remove1 j js = takeWhile (\<lambda>x. job_id x \<noteq> jid) js @ tl (dropWhile (\<lambda>x. job_id x \<noteq> jid) js)"
  by (induction js) (auto split: if_splits dest: find_job_Some_id)


section \<open>Job ledger and engine commands\<close>

text \<open>
  Claim C5. When a domain rule rejects a command, the command returns its negative
  message as an ordinary result and the whole state, the two history tables included,
  is the state before the call: \<^verbatim>\<open>start_job\<close> with less cash than \<open>50 * qty\<close>, or with
  enough cash and a machine health of 0 or less; \<^verbatim>\<open>repair_machine\<close> with less cash than
  200; \<^verbatim>\<open>change_shift\<close> with a name other than DAY and NIGHT.
\<close>

theorem rejected_operations_leave_state:
  "(cash_balance s < real_of_int (50 * q) \<longrightarrow>
      start_job jid q s = (''Insufficient funds to start job.'', s))
   \<and> (real_of_int (50 * q) \<le> cash_balance s \<and> machine_health s \<le> 0 \<longrightarrow>
      start_job jid q s = (''Machine broken. Cannot start job.'', s))
   \<and> (cash_balance s < 200 \<longrightarrow>
      repair_machine s = (''Insufficient funds for repair.'', s))
   \<and> (new_shift \<noteq> ''DAY'' \<and> new_shift \<noteq> ''NIGHT'' \<longrightarrow>
      change_shift new_shift s = (''Invalid shift. Use DAY or NIGHT.'', s))"
  by (simp add: start_job_def repair_machine_def change_shift_def Let_def)

theorem rejected_operations_leave_state_witness:
  "start_job ''O1'' 10 (FactoryState_init\<lparr>cash_balance := 100\<rparr>) =
     (''Insufficient funds to start job.'', FactoryState_init\<lparr>cash_balance := 100\<rparr>)
   \<and> start_job ''O1'' 10 (FactoryState_init\<lparr>machine_health := 0\<rparr>) =
     (''Machine broken. Cannot start job.'', FactoryState_init\<lparr>machine_health := 0\<rparr>)
   \<and> repair_machine (FactoryState_init\<lparr>cash_balance := 100\<rparr>) =
     (''Insufficient funds for repair.'', FactoryState_init\<lparr>cash_balance := 100\<rparr>)
   \<and> change_shift ''SIDEWAYS'' (FactoryState_init\<lparr>cash_balance := 100\<rparr>) =
     (''Invalid shift. Use DAY or NIGHT.'', FactoryState_init\<lparr>cash_balance := 100\<rparr>)"
  using rejected_operations_leave_state [of "FactoryState_init\<lparr>cash_balance := 100\<rparr>" 10 "''O1''" "''SIDEWAYS''"]
        rejected_operations_leave_state [of "FactoryState_init\<lparr>machine_health := 0\<rparr>" 10 "''O1''" "''SIDEWAYS''"]
  by (simp add: FactoryState_init_def)





text \<open>
  Claim C6. If an active job has the id asked for, \<^verbatim>\<open>cancel_job\<close> removes the first
  such job and no other, leaves the cash as it was (no refund), stores a CANCELLED row
  under the id and returns the confirmation text. If no active job has the id, it returns
  the text "Job not found." as an ordinary result and the state, job table included, is
  unchanged.
\<close>

theorem cancel_job_found_or_not:
  "((\<exists>j\<in>set (active_jobs s). job_id j = jid) \<longrightarrow>
      fst (cancel_job jid s) = ''Job '' @ jid @ '' cancelled.''
      \<and> active_jobs (snd (cancel_job jid s)) =
          takeWhile (\<lambda>j. job_id j \<noteq> jid) (active_jobs s)
            @ tl (dropWhile (\<lambda>j. job_id j \<noteq> jid) (active_jobs s))
      \<and> length (active_jobs (snd (cancel_job jid s))) + 1 = length (active_jobs s)
      \<and> cash_balance (snd (cancel_job jid s)) = cash_balance s
      \<and> (\<exists>j\<in>set (active_jobs s). job_id j = jid \<and>
            job_history (snd (cancel_job jid s)) jid =
              Some \<lparr>row_start_tick = start_tick j, row_end_tick = factory_clock s,
                    row_status = ''CANCELLED'', row_revenue = revenue j, row_cost = cost j\<rparr>)
      \<and> inventory (snd (cancel_job jid s)) = inventory s
      \<and> machine_health (snd (cancel_job jid s)) = machine_health s
      \<and> current_shift (snd (cancel_job jid s)) = current_shift s
      \<and> factory_clock (snd (cancel_job jid s)) = factory_clock s)
   \<and> ((\<forall>j\<in>set (active_jobs s). job_id j \<noteq> jid) \<longrightarrow>
      cancel_job jid s = (''Job not found.'', s))"
proof (intro conjI impI)
  assume "\<forall>j\<in>set (active_jobs s). job_id j \<noteq> jid"
  then have "find_job jid (active_jobs s) = None" by (simp add: find_job_None_iff)
  then show "cancel_job jid s = (''Job not found.'', s)" by (simp add: cancel_job_def)
next
  assume ex: "\<exists>j\<in>set (active_jobs s). job_id j = jid"
  then have "find_job jid (active_jobs s) \<noteq> None" by (simp add: find_job_None_iff)
  then obtain j where f: "find_job jid (active_jobs s) = Some j" by blast
  note r = find_job_remove1[OF f] and i = find_job_Some_id[OF f]
  have c: "cancel_job jid s =
     (''Job '' @ jid @ '' cancelled.'',
      log_job j ''CANCELLED'' (s\<lparr>active_jobs := remove1 j (active_jobs s)\<rparr>))"
    using f by (simp add: cancel_job_def)
  show "fst (cancel_job jid s) = ''Job '' @ jid @ '' cancelled.''" by (simp add: c)
  show "active_jobs (snd (cancel_job jid s)) =
          takeWhile (\<lambda>j. job_id j \<noteq> jid) (active_jobs s)
            @ tl (dropWhile (\<lambda>j. job_id j \<noteq> jid) (active_jobs s))"
    by (simp add: c log_job_def r)
  have "length (remove1 j (active_jobs s)) = length (active_jobs s) - 1"
    using i by (simp add: length_remove1)
  moreover have "0 < length (active_jobs s)" using i by (cases "active_jobs s") auto
  ultimately show "length (active_jobs (snd (cancel_job jid s))) + 1 = length (active_jobs s)"
    by (simp add: c log_job_def)
  show "cash_balance (snd (cancel_job jid s)) = cash_balance s" by (simp add: c log_job_def)
  show "\<exists>j\<in>set (active_jobs s). job_id j = jid \<and>
            job_history (snd (cancel_job jid s)) jid =
              Some \<lparr>row_start_tick = start_tick j, row_end_tick = factory_clock s,
                    row_status = ''CANCELLED'', row_revenue = revenue j, row_cost = cost j\<rparr>"
    using i by (intro bexI[of _ j]) (simp_all add: c log_job_def)
  show "inventory (snd (cancel_job jid s)) = inventory s" by (simp add: c log_job_def)
  show "machine_health (snd (cancel_job jid s)) = machine_health s" by (simp add: c log_job_def)
  show "current_shift (snd (cancel_job jid s)) = current_shift s" by (simp add: c log_job_def)
  show "factory_clock (snd (cancel_job jid s)) = factory_clock s" by (simp add: c log_job_def)
qed

theorem cancel_job_found_or_not_witness:
  "fst (cancel_job ''O1'' (snd (start_job ''O1'' 10 FactoryState_init))) = ''Job O1 cancelled.''
   \<and> active_jobs (snd (cancel_job ''O1'' (snd (start_job ''O1'' 10 FactoryState_init)))) = []
   \<and> cash_balance (snd (cancel_job ''O1'' (snd (start_job ''O1'' 10 FactoryState_init)))) = 500
   \<and> cancel_job ''MISSING'' FactoryState_init = (''Job not found.'', FactoryState_init)"
  using cancel_job_found_or_not [of "snd (start_job ''O1'' 10 FactoryState_init)" "''O1''"]
        cancel_job_found_or_not [of FactoryState_init "''MISSING''"]
  by (simp add: start_job_def FactoryState_init_def log_job_def Let_def)



section \<open>Machine health\<close>

subsection \<open>What the tick reads\<close>



lemma log_job_health:
  "log_job j st (s\<lparr>machine_health := h\<rparr>) = (log_job j st s)\<lparr>machine_health := h\<rparr>"
  by (simp add: log_job_def)


lemma complete_jobs_keeps_health:
  "machine_health (snd (complete_jobs rnd js s)) = machine_health s"
  by (induction js arbitrary: s rnd) (auto simp: Let_def log_job_def split: sum.splits)

lemma tick_keeps_health: "machine_health (snd (tick rnd s)) = machine_health s"
proof -
  let ?s2 = "s\<lparr>factory_clock := factory_clock s + 1,
               active_jobs := map (\<lambda>j. j\<lparr>duration := duration j - 1\<rparr>) (active_jobs s)\<rparr>"
  let ?c = "complete_jobs rnd (filter (\<lambda>j. duration j \<le> 0) (active_jobs ?s2)) ?s2"
  have "machine_health (snd ?c) = machine_health s"
    by (simp add: complete_jobs_keeps_health)
  then show ?thesis
    by (cases ?c; cases "fst ?c") (auto simp: tick_def Let_def log_state_def)
qed

lemma start_job_health_bounds:
  "0 \<le> machine_health s \<Longrightarrow> machine_health s \<le> 100 \<Longrightarrow>
   0 \<le> machine_health (snd (start_job jid q s)) \<and> machine_health (snd (start_job jid q s)) \<le> 100"
  by (simp add: start_job_def Let_def log_job_def)

lemma cancel_job_keeps_health: "machine_health (snd (cancel_job jid s)) = machine_health s"
  by (simp add: cancel_job_def log_job_def split: option.splits)

lemma repair_machine_health_bounds:
  "0 \<le> machine_health s \<Longrightarrow> machine_health s \<le> 100 \<Longrightarrow>
   0 \<le> machine_health (snd (repair_machine s)) \<and> machine_health (snd (repair_machine s)) \<le> 100"
  by (simp add: repair_machine_def Let_def)

lemma change_shift_keeps_health: "machine_health (snd (change_shift n s)) = machine_health s"
  by (simp add: change_shift_def)

lemma reachable_health_range:
  assumes "reachable s"
  shows "0 \<le> machine_health s \<and> machine_health s \<le> 100"
  using assms
proof (induction rule: reachable.induct)
  case init
  show ?case by (simp add: FactoryState_init_def)
next
  case (start s jid q)
  then show ?case using start_job_health_bounds by blast
next
  case (cancel s jid)
  then show ?case by (simp add: cancel_job_keeps_health)
next
  case (repair s)
  then show ?case using repair_machine_health_bounds by blast
next
  case (shift s new_shift)
  then show ?case by (simp add: change_shift_keeps_health)
next
  case (tick s rnd)
  then show ?case by (simp add: tick_keeps_health)
qed

text \<open>
  Claim C2. In every state reachable from the fresh state by \<^verbatim>\<open>start_job\<close>,
  \<^verbatim>\<open>cancel_job\<close>, \<^verbatim>\<open>repair_machine\<close>, \<^verbatim>\<open>change_shift\<close> and \<^verbatim>\<open>tick\<close>, the machine
  health lies between 0 and 100. It starts at 100, a successful repair sets it to 100,
  and a job start subtracts the wear of the shift and stops at 0.
\<close>

theorem machine_health_bounds:
  assumes "reachable s"
  shows "0 \<le> machine_health s \<and> machine_health s \<le> 100
       \<and> machine_health FactoryState_init = 100
       \<and> (200 \<le> cash_balance s \<longrightarrow> machine_health (snd (repair_machine s)) = 100)
       \<and> (real_of_int (50 * q) \<le> cash_balance s \<and> 0 < machine_health s \<longrightarrow>
            machine_health (snd (start_job jid q s)) =
              max 0 (machine_health s - (if current_shift s = ''DAY'' then 5 else 8)))"
  using reachable_health_range [OF assms]
  by (simp add: FactoryState_init_def repair_machine_def start_job_def log_job_def Let_def)

theorem machine_health_bounds_witness:
  "reachable (snd (start_job ''O1'' 10 FactoryState_init))
   \<and> 0 \<le> machine_health (snd (start_job ''O1'' 10 FactoryState_init))
   \<and> machine_health (snd (start_job ''O1'' 10 FactoryState_init)) \<le> 100
   \<and> machine_health (snd (start_job ''O1'' 10 FactoryState_init)) = 95"
proof -
  have r: "reachable (snd (start_job ''O1'' 10 FactoryState_init))"
    by (intro reachable.start reachable.init)
  from machine_health_bounds [OF r] r show ?thesis
    by (simp add: start_job_def FactoryState_init_def log_job_def Let_def)
qed

subsection \<open>The tick does not depend on the health\<close>




section \<open>The market forecast\<close>

subsection \<open>The loop stores one entry per offset\<close>

lemma update_fresh_key: "k \<notin> fst ` set al \<Longrightarrow> AList.update k v al = al @ [(k, v)]"
  by (induction al) auto

lemma fold_update_fresh:
  "distinct (map k ts) \<Longrightarrow> (\<forall>t\<in>set ts. k t \<notin> fst ` set acc) \<Longrightarrow>
   fold (\<lambda>t. AList.update (k t) (v t)) ts acc = acc @ map (\<lambda>t. (k t, v t)) ts"
proof (induction ts arbitrary: acc)
  case Nil
  show ?case by simp
next
  case (Cons t ts)
  have u: "AList.update (k t) (v t) acc = acc @ [(k t, v t)]"
    using Cons.prems by (simp add: update_fresh_key)
  have "\<forall>t'\<in>set ts. k t' \<notin> fst ` set (acc @ [(k t, v t)])"
    using Cons.prems by (fastforce simp: image_iff)
  moreover have "distinct (map k ts)" using Cons.prems by simp
  ultimately have "fold (\<lambda>t. AList.update (k t) (v t)) ts (acc @ [(k t, v t)])
                   = (acc @ [(k t, v t)]) @ map (\<lambda>t. (k t, v t)) ts"
    by (rule Cons.IH[rotated])
  then show ?case by (simp add: u)
qed


lemma forecast_key_inj: "inj (forecast_key s)"
  by (rule injI) (auto simp: forecast_key_def dest: str_int_inj)

lemma forecast_step_update:
  "forecast_step rnd s = (\<lambda>t. AList.update (forecast_key s t) (forecast_value rnd s t))"
proof -
  have a: "\<And>x::real. x * (2 * pi / 24) = 2 * pi * x / 24" by simp
  show ?thesis
    unfolding fun_eq_iff forecast_step_def forecast_key_def forecast_value_def dict_set_def Let_def
    by (simp only: a, intro allI refl)
qed

lemma get_market_forecast_list:
  "get_market_forecast rnd s horizon =
     map (\<lambda>t. (forecast_key s t, forecast_value rnd s t)) [1..horizon]"
proof -
  have "distinct (map (forecast_key s) [1..horizon])"
    by (simp add: distinct_map inj_on_subset[OF forecast_key_inj])
  then have "fold (\<lambda>t. AList.update (forecast_key s t) (forecast_value rnd s t)) [1..horizon] []
             = [] @ map (\<lambda>t. (forecast_key s t, forecast_value rnd s t)) [1..horizon]"
    by (rule fold_update_fresh) simp
  then show ?thesis by (simp add: get_market_forecast_def forecast_step_update)
qed



subsection \<open>Truncation is not rounding\<close>






section \<open>Completing a job\<close>

text \<open>The forecast has string keys only, so indexing it with an integer finds nothing.\<close>

lemma forecast_int_key_missing:
  "dict_getitem (get_market_forecast rnd s horizon) (IntKey k) = Inl KeyError"
proof -
  have "map_of (map (\<lambda>t. (forecast_key s t, forecast_value rnd s t)) ts) (IntKey k) = None" for ts
    by (induction ts) (simp_all add: forecast_key_def)
  then show ?thesis by (simp add: dict_getitem_def get_market_forecast_list)
qed

lemma complete_jobs_raises:
  "complete_jobs rnd (j # rest) s = (Inl KeyError, s\<lparr>active_jobs := remove1 j (active_jobs s)\<rparr>)"
  by (simp add: forecast_int_key_missing Let_def)

lemma tick_completion_raises:
  assumes "\<exists>j\<in>set (active_jobs s). duration j \<le> 1"
  shows "fst (tick rnd s) = Inl KeyError
       \<and> cash_balance (snd (tick rnd s)) = cash_balance s
       \<and> inventory (snd (tick rnd s)) = inventory s
       \<and> job_history (snd (tick rnd s)) = job_history s
       \<and> factory_history (snd (tick rnd s)) = factory_history s
       \<and> factory_clock (snd (tick rnd s)) = factory_clock s + 1"
proof -
  let ?js = "map (\<lambda>j. j\<lparr>duration := duration j - 1\<rparr>) (active_jobs s)"
  from assms obtain j where "j \<in> set (active_jobs s)" "duration j \<le> 1" by blast
  then have "j\<lparr>duration := duration j - 1\<rparr> \<in> set (filter (\<lambda>j. duration j \<le> 0) ?js)" by auto
  then obtain d rest where "filter (\<lambda>j. duration j \<le> 0) ?js = d # rest"
    by (cases "filter (\<lambda>j. duration j \<le> 0) ?js") auto
  then show ?thesis by (simp add: tick_def Let_def complete_jobs_raises del: complete_jobs.simps)
qed

text \<open>
  Claim C1 against the code. Scenario B: after \<^verbatim>\<open>start_job("O1", 10)\<close> on the fresh state,
  the first four ticks succeed; the fifth removes the job from the active jobs and then
  raises \<^verbatim>\<open>KeyError\<close> at the forecast lookup. The inventory is still 0 and the cash still
  500, the job's row still says STARTED, and no snapshot of tick 5 is stored.
\<close>

theorem scenario_b_fifth_tick_raises:
  "fst (tick zero_noise (snd (tick zero_noise (snd (tick zero_noise (snd (tick zero_noise
      (snd (tick zero_noise (snd (start_job ''O1'' 10 FactoryState_init)))))))))))
     = Inl KeyError
   \<and> inventory (snd (tick zero_noise (snd (tick zero_noise (snd (tick zero_noise (snd (tick zero_noise
      (snd (tick zero_noise (snd (start_job ''O1'' 10 FactoryState_init))))))))))))
     = 0
   \<and> cash_balance (snd (tick zero_noise (snd (tick zero_noise (snd (tick zero_noise (snd (tick zero_noise
      (snd (tick zero_noise (snd (start_job ''O1'' 10 FactoryState_init))))))))))))
     = 500
   \<and> active_jobs (snd (tick zero_noise (snd (tick zero_noise (snd (tick zero_noise (snd (tick zero_noise
      (snd (tick zero_noise (snd (start_job ''O1'' 10 FactoryState_init))))))))))))
     = []
   \<and> map_option row_status (job_history (snd (tick zero_noise (snd (tick zero_noise (snd (tick zero_noise
      (snd (tick zero_noise (snd (tick zero_noise (snd (start_job ''O1'' 10 FactoryState_init)))))))))))) ''O1'')
     = Some ''STARTED''
   \<and> dom (factory_history (snd (tick zero_noise (snd (tick zero_noise (snd (tick zero_noise
      (snd (tick zero_noise (snd (tick zero_noise (snd (start_job ''O1'' 10 FactoryState_init)))))))))))))
     = {1, 2, 3, 4}"
  by (simp add: tick_def start_job_def FactoryState_init_def log_job_def log_state_def Let_def
        forecast_int_key_missing) auto

section \<open>Reading the status\<close>

text \<open>
  Claim C7 against the code. \<^verbatim>\<open>get_status\<close> returns one line of text, not a mapping:
  on the fresh state it is the text below, whatever the two float formats print. Being a
  function of the state alone, it changes no field.
\<close>

theorem get_status_is_text:
  "get_status fmt_2f float_str FactoryState_init =
     ''Tick: 0 | Shift: DAY | Cash: $'' @ fmt_2f 1000 @ '' | Inventory: 0 | Health: ''
       @ float_str 100 @ ''% | Active Jobs: 0''"
  by (simp add: get_status_def FactoryState_init_def str_int_def str_nat.simps digit_char_numerals)

end
